theory Spec2Isabelle
  imports Complex_Main
begin

section \<open>Notification engine (frames/notificaciones.py)\<close>

text \<open>
  The dictionary \<open>data\<close> that \<open>NotificationManager.show_notification\<close> builds.
  The callback is an opaque handle, the timestamp is the reading of \<open>datetime.now()\<close>.
  Python passes the dictionary by reference: the history, the queue, the widget and the
  signal \<open>notification_shown\<close> all hold the same object. \<open>n_id\<close> is the identity of
  that object (a creation counter), so that a write through one reference can be
  carried to every place that holds the object.
\<close>

record notification =
  n_id :: nat
  n_title :: string
  n_message :: string
  n_type :: string
  n_timestamp :: int
  n_action_callback :: "nat option"
  n_action_data :: "string option"
  n_icon :: string
  n_read :: bool

text \<open>
  A \<open>NotificationWidget\<close>: Python compares widgets by identity, which is the
  creation counter \<open>wid\<close> here.
\<close>

record widget =
  wid :: nat
  w_data :: notification
  w_duration :: int

text \<open>
  The callbacks the engine hands to \<open>QTimer.singleShot\<close>:
  \<open>ShowNext\<close> is \<open>self.show_next_notification\<close> (the 500 ms retry),
  \<open>AnimDone\<close> is the lambda of line 144 (150 ms),
  \<open>CloseWidget w\<close> is the auto-close \<open>self.close\<close> of the widget with identity \<open>w\<close>.
\<close>

datatype callback = ShowNext | AnimDone | CloseWidget nat

text \<open>
  \<open>QTimer.singleShot\<close> takes its delay as a C \<open>int\<close>: a Python integer outside 32
  bits makes the call raise \<open>OverflowError\<close>.
\<close>

datatype error = OverflowError

definition int32 :: "int \<Rightarrow> bool" where
  "int32 d \<longleftrightarrow> - (2 ^ 31) \<le> d \<and> d < 2 ^ 31"

record manager =
  notification_widgets :: "widget list"
  notification_history :: "notification list"
  notification_queue :: "(notification \<times> int) list"
  is_animating :: bool
  max_notifications :: nat
  notification_duration :: int
  timers :: "(int \<times> callback) list"
  widgets_created :: nat
  dicts_created :: nat
  shown :: "notification list"

text \<open>The state that \<open>NotificationManager.__init__\<close> sets up.\<close>

definition new_manager :: manager where
  "new_manager =
     \<lparr>notification_widgets = [], notification_history = [], notification_queue = [],
      is_animating = False, max_notifications = 5, notification_duration = 5000,
      timers = [], widgets_created = 0, dicts_created = 0, shown = []\<rparr>"

text \<open>
  \<open>show_next_notification\<close>, lines 126 to 144. The constructor of the widget registers
  the auto-close timer in its last line (386), after the flag is set and the head of the
  queue is popped (lines 136 and 137): when the duration does not fit, the exception
  leaves \<open>show_next_notification\<close> there, the widget is never appended and the 150 ms
  timer is never registered. \<open>reposition_notifications\<close> only moves windows;
  \<open>shown\<close> collects what the signal \<open>notification_shown\<close> emits.
\<close>

definition show_next_notification :: "manager \<Rightarrow> (error + unit) \<times> manager" where
  "show_next_notification m =
     (case notification_queue m of
        [] \<Rightarrow> (Inr (), m\<lparr>is_animating := False\<rparr>)
      | (data, duration) # rest \<Rightarrow>
          if length (notification_widgets m) \<ge> max_notifications m
          then (Inr (), m\<lparr>timers := timers m @ [(500, ShowNext)]\<rparr>)
          else
            let m1 = m\<lparr>is_animating := True, notification_queue := rest,
                       widgets_created := Suc (widgets_created m)\<rparr>;
                notif = \<lparr>wid = widgets_created m, w_data = data, w_duration = duration\<rparr>
            in if \<not> int32 duration then (Inl OverflowError, m1)
               else (Inr (),
                     m1\<lparr>notification_widgets := notification_widgets m1 @ [notif],
                        shown := shown m1 @ [data],
                        timers := timers m1 @ [(duration, CloseWidget (wid notif)), (150, AnimDone)]\<rparr>))"

text \<open>\<open>duration or self.notification_duration\<close>: None and 0 are both falsy.\<close>

definition duration_or :: "int option \<Rightarrow> int \<Rightarrow> int" where
  "duration_or duration dflt =
     (case duration of None \<Rightarrow> dflt | Some d \<Rightarrow> if d = 0 then dflt else d)"

text \<open>The dictionary of lines 105 to 114, as the object with identity \<open>ident\<close>.\<close>

definition make_data ::
  "nat \<Rightarrow> string \<Rightarrow> string \<Rightarrow> string \<Rightarrow> nat option \<Rightarrow> string option \<Rightarrow> string \<Rightarrow> int \<Rightarrow> notification"
where
  "make_data ident title message typ action_callback action_data icon now =
     \<lparr>n_id = ident, n_title = title, n_message = message, n_type = typ, n_timestamp = now,
      n_action_callback = action_callback, n_action_data = action_data,
      n_icon = icon, n_read = False\<rparr>"

text \<open>
  The history update of lines 117 to 119: \<open>insert(0, data)\<close>, then one \<open>pop()\<close>
  of the last element when the list has grown past 200.
\<close>

definition save_history :: "notification \<Rightarrow> notification list \<Rightarrow> notification list" where
  "save_history data history =
     (let inserted = data # history
      in if length inserted > 200 then butlast inserted else inserted)"

text \<open>\<open>show_notification\<close>, lines 98 to 124; \<open>now\<close> is what \<open>datetime.now()\<close> reads.\<close>

definition show_notification ::
  "manager \<Rightarrow> string \<Rightarrow> string \<Rightarrow> string \<Rightarrow> int option \<Rightarrow> nat option \<Rightarrow> string option
     \<Rightarrow> string \<Rightarrow> int \<Rightarrow> (error + unit) \<times> manager"
where
  "show_notification m title message typ duration action_callback action_data icon now =
     (let duration' = duration_or duration (notification_duration m);
          data = make_data (dicts_created m) title message typ action_callback action_data icon now;
          m1 = m\<lparr>dicts_created := Suc (dicts_created m),
                 notification_history := save_history data (notification_history m)\<rparr>;
          m2 = m1\<lparr>notification_queue := notification_queue m1 @ [(data, duration')]\<rparr>
      in if \<not> is_animating m2 then show_next_notification m2 else (Inr (), m2))"

text \<open>
  \<open>_on_widget_closed\<close>, lines 146 to 153: \<open>list.remove\<close> takes out the first
  element that is the widget.
\<close>

fun remove_widget :: "nat \<Rightarrow> widget list \<Rightarrow> widget list" where
  "remove_widget w [] = []"
| "remove_widget w (x # xs) = (if wid x = w then xs else x # remove_widget w xs)"

definition on_widget_closed :: "manager \<Rightarrow> nat \<Rightarrow> manager" where
  "on_widget_closed m w =
     (if w \<in> set (map wid (notification_widgets m))
      then m\<lparr>notification_widgets := remove_widget w (notification_widgets m)\<rparr>
      else m)"

text \<open>\<open>auto_clean_history\<close>, lines 287 to 295, with the cutoff date already computed.\<close>

definition auto_clean_history :: "manager \<Rightarrow> int \<Rightarrow> manager" where
  "auto_clean_history m cutoff_date =
     m\<lparr>notification_history := filter (\<lambda>notif. n_timestamp notif > cutoff_date) (notification_history m)\<rparr>"

text \<open>
  \<open>notif['read'] = True\<close> on the dictionaries with the identities \<open>ids\<close>: the write
  is seen through every reference to such a dictionary, in the history, in the queue,
  in a widget and in what the signal handed out.
\<close>

definition set_read :: "nat list \<Rightarrow> notification \<Rightarrow> notification" where
  "set_read ids notif = (if n_id notif \<in> set ids then notif\<lparr>n_read := True\<rparr> else notif)"

definition write_read :: "nat list \<Rightarrow> manager \<Rightarrow> manager" where
  "write_read ids m =
     m\<lparr>notification_history := map (set_read ids) (notification_history m),
       notification_queue := map (\<lambda>(data, duration). (set_read ids data, duration)) (notification_queue m),
       notification_widgets := map (\<lambda>w. w\<lparr>w_data := set_read ids (w_data w)\<rparr>) (notification_widgets m),
       shown := map (set_read ids) (shown m)\<rparr>"

text \<open>\<open>mark_all_as_read\<close>, lines 306 to 309.\<close>

definition mark_all_as_read :: "manager \<Rightarrow> manager" where
  "mark_all_as_read m = write_read (map n_id (notification_history m)) m"

text \<open>
  \<open>NotificationCenter.on_notification_click\<close> on the row \<open>row\<close> of the list, lines 904
  to 912, with \<open>handle_notification_click\<close>, lines 311 to 320. The action callback is
  opaque and its exceptions are swallowed; it is taken not to call the manager.
\<close>

definition on_notification_click :: "manager \<Rightarrow> nat \<Rightarrow> manager" where
  "on_notification_click m row =
     (if row < length (notification_history m)
      then write_read [n_id (notification_history m ! row)] m
      else m)"

text \<open>
  \<open>NotificationCenter.save_config\<close>, line 954, as far as the manager is concerned;
  \<open>seconds\<close> is the reading of the spin box, whose range is 3 to 30 (line 767).
\<close>

definition save_config :: "manager \<Rightarrow> int \<Rightarrow> manager" where
  "save_config m seconds =
     (if 3 \<le> seconds \<and> seconds \<le> 30 then m\<lparr>notification_duration := seconds * 1000\<rparr> else m)"

text \<open>What a timer does when it expires.\<close>

fun run_callback :: "callback \<Rightarrow> manager \<Rightarrow> (error + unit) \<times> manager" where
  "run_callback ShowNext m = show_next_notification m"
| "run_callback AnimDone m = show_next_notification (m\<lparr>is_animating := False\<rparr>)"
| "run_callback (CloseWidget w) m = (Inr (), on_widget_closed m w)"

text \<open>
  Everything that happens to the manager on the single user-interface thread:
  a submission, the expiry of the i-th pending single-shot timer, the user closing the
  widget \<open>w\<close>, the hourly clean-up, and the buttons of the notification centre
  (\<open>clear_history\<close> confirmed, \<open>mark_all_read\<close>, a click on a row of the history,
  \<open>save_config\<close>). Each step gives the exception that leaves it, if any, and the
  state it leaves behind.
\<close>

datatype event =
    Submit string string string "int option" "nat option" "string option" string int
  | Fire nat
  | Dismiss nat
  | AutoClean int
  | ClearHistory
  | MarkAllRead
  | ClickHistory nat
  | SaveConfig int

fun step :: "manager \<Rightarrow> event \<Rightarrow> (error + unit) \<times> manager" where
  "step m (Submit title message typ duration cb adata icon now) =
     show_notification m title message typ duration cb adata icon now"
| "step m (Fire i) =
     (if i < length (timers m)
      then run_callback (snd (timers m ! i)) (m\<lparr>timers := take i (timers m) @ drop (Suc i) (timers m)\<rparr>)
      else (Inr (), m))"
| "step m (Dismiss w) = (Inr (), on_widget_closed m w)"
| "step m (AutoClean cutoff_date) = (Inr (), auto_clean_history m cutoff_date)"
| "step m ClearHistory = (Inr (), m\<lparr>notification_history := []\<rparr>)"
| "step m MarkAllRead = (Inr (), mark_all_as_read m)"
| "step m (ClickHistory row) = (Inr (), on_notification_click m row)"
| "step m (SaveConfig seconds) = (Inr (), save_config m seconds)"

text \<open>
  A run of events: the event loop reports an exception that leaves a slot or a timer
  callback and goes on with the next event, on the state the failed step left.
\<close>

definition run :: "manager \<Rightarrow> event list \<Rightarrow> manager" where
  "run m evs = foldl (\<lambda>m e. snd (step m e)) m evs"

text \<open>
  The notifications a list of events submits, in the order of submission; \<open>n\<close> is the
  identity the first of them gets.
\<close>

fun submitted :: "nat \<Rightarrow> event list \<Rightarrow> notification list" where
  "submitted n [] = []"
| "submitted n (Submit title message typ duration cb adata icon now # evs) =
     make_data n title message typ cb adata icon now # submitted (Suc n) evs"
| "submitted n (_ # evs) = submitted n evs"

fun edits_history :: "event \<Rightarrow> bool" where
  "edits_history (AutoClean _) = True"
| "edits_history ClearHistory = True"
| "edits_history MarkAllRead = True"
| "edits_history (ClickHistory _) = True"
| "edits_history _ = False"





text \<open>Every duration the manager holds fits the delay of a timer.\<close>

definition durations_fit :: "manager \<Rightarrow> bool" where
  "durations_fit m \<longleftrightarrow>
     int32 (notification_duration m) \<and> list_all (\<lambda>(data, duration). int32 duration) (notification_queue m)"



text \<open>A notification with its \<open>read\<close> entry put back to \<open>False\<close>.\<close>

definition unread :: "notification \<Rightarrow> notification" where
  "unread notif = notif\<lparr>n_read := False\<rparr>"







section \<open>Client form validation (frames/clients.py)\<close>

text \<open>
  The two patterns of \<open>validate_form\<close> are written in a small regular-expression
  language: character classes (a literal, a negated literal as in \<open>[^@]\<close>, a range as
  in \<open>[0-9]\<close>), sequence, alternative and iteration. \<open>Plus r\<close> is \<open>r+\<close> and
  \<open>Rep n r\<close> is \<open>r{n}\<close>.
\<close>

datatype cclass = Lit char | Neg char | Range char char

fun in_class :: "cclass \<Rightarrow> char \<Rightarrow> bool" where
  "in_class (Lit a) c = (c = a)"
| "in_class (Neg a) c = (c \<noteq> a)"
| "in_class (Range lo hi) c = (of_char lo \<le> (of_char c :: nat) \<and> (of_char c :: nat) \<le> of_char hi)"

datatype regex = Zero | One | Cls cclass | Alt regex regex | Seq regex regex | Star regex

definition Plus :: "regex \<Rightarrow> regex" where
  "Plus r = Seq r (Star r)"

fun Rep :: "nat \<Rightarrow> regex \<Rightarrow> regex" where
  "Rep 0 r = One"
| "Rep (Suc n) r = Seq r (Rep n r)"

text \<open>Matching a whole string, by derivatives.\<close>

fun nullable :: "regex \<Rightarrow> bool" where
  "nullable Zero = False"
| "nullable One = True"
| "nullable (Cls k) = False"
| "nullable (Alt r s) = (nullable r \<or> nullable s)"
| "nullable (Seq r s) = (nullable r \<and> nullable s)"
| "nullable (Star r) = True"

fun deriv :: "char \<Rightarrow> regex \<Rightarrow> regex" where
  "deriv c Zero = Zero"
| "deriv c One = Zero"
| "deriv c (Cls k) = (if in_class k c then One else Zero)"
| "deriv c (Alt r s) = Alt (deriv c r) (deriv c s)"
| "deriv c (Seq r s) =
     (if nullable r then Alt (Seq (deriv c r) s) (deriv c s) else Seq (deriv c r) s)"
| "deriv c (Star r) = Seq (deriv c r) (Star r)"

fun fullmatch :: "regex \<Rightarrow> string \<Rightarrow> bool" where
  "fullmatch r [] = nullable r"
| "fullmatch r (c # cs) = fullmatch (deriv c r) cs"

text \<open>
  \<open>re.match\<close> with a pattern of the shape \<open>^r$\<close>: Python's \<open>$\<close> matches at the end
  of the string and also just before a newline that ends the string.
\<close>

definition re_match_anchored :: "regex \<Rightarrow> string \<Rightarrow> bool" where
  "re_match_anchored r s =
     (fullmatch r s \<or> (s \<noteq> [] \<and> last s = CHR 0x0A \<and> fullmatch r (butlast s)))"

text \<open>
  Line 648: one or more characters other than \<open>@\<close>, an \<open>@\<close>, one or more characters
  other than \<open>@\<close>, a dot, one or more characters other than \<open>@\<close>.
  Line 654: thirteen characters of \<open>[0-9]\<close>.
\<close>

definition email_pattern :: regex where
  "email_pattern =
     Seq (Plus (Cls (Neg CHR ''@'')))
       (Seq (Cls (Lit CHR ''@''))
         (Seq (Plus (Cls (Neg CHR ''@'')))
           (Seq (Cls (Lit CHR ''.'')) (Plus (Cls (Neg CHR ''@''))))))"

definition dni_pattern :: regex where
  "dni_pattern = Rep 13 (Cls (Range CHR ''0'' CHR ''9''))"

text \<open>
  \<open>str.strip()\<close>. A \<open>char\<close> stands for a code point below 256; these are the ones
  Python counts as white space.
\<close>

definition isspace :: "char \<Rightarrow> bool" where
  "isspace c = (of_char c \<in> {9, 10, 11, 12, 13, 28, 29, 30, 31, 32, 133, 160 :: nat})"

definition strip :: "string \<Rightarrow> string" where
  "strip s = rev (dropWhile isspace (rev (dropWhile isspace s)))"

text \<open>The text of the four line edits that \<open>validate_form\<close> reads.\<close>

record client_form =
  nombre_input :: string
  apellido_input :: string
  email_input :: string
  dni_input :: string

datatype field = NombreInput | ApellidoInput | EmailInput | DniInput

text \<open>What the form does on the screen: \<open>show_error title message\<close> and \<open>setFocus\<close>.\<close>

datatype ui_effect = ShowError string string | SetFocus field

definition error_de_validacion :: string where
  "error_de_validacion = ''Error de Validaci'' @ [CHR 0xF3] @ ''n''"

text \<open>
  \<open>ClientsFrame.validate_form\<close>, lines 630 to 659: the value returned and what was shown.
\<close>

definition validate_form :: "client_form \<Rightarrow> bool \<times> ui_effect list" where
  "validate_form f =
     (let nombre = strip (nombre_input f);
          apellido = strip (apellido_input f);
          email = strip (email_input f);
          dni = strip (dni_input f)
      in if nombre = [] then
           (False, [ShowError error_de_validacion ''El nombre es obligatorio'', SetFocus NombreInput])
         else if apellido = [] then
           (False, [ShowError error_de_validacion ''El apellido es obligatorio'', SetFocus ApellidoInput])
         else if email \<noteq> [] \<and> \<not> re_match_anchored email_pattern email then
           (False, [ShowError error_de_validacion (''Formato de email inv'' @ [CHR 0xE1] @ ''lido''),
                    SetFocus EmailInput])
         else if dni \<noteq> [] \<and> \<not> re_match_anchored dni_pattern dni then
           (False, [ShowError error_de_validacion (''El DNI debe tener 13 d'' @ [CHR 0xED] @ ''gitos''),
                    SetFocus DniInput])
         else (True, []))"

fun is_error :: "ui_effect \<Rightarrow> bool" where
  "is_error (ShowError _ _) = True"
| "is_error (SetFocus _) = False"

text \<open>The language of a pattern, to state what the matcher accepts.\<close>

inductive_set star :: "string set \<Rightarrow> string set" for A :: "string set" where
  star_nil: "[] \<in> star A"
| star_app: "u \<in> A \<Longrightarrow> v \<in> star A \<Longrightarrow> u @ v \<in> star A"

fun lang :: "regex \<Rightarrow> string set" where
  "lang Zero = {}"
| "lang One = {[]}"
| "lang (Cls k) = {[c] | c. in_class k c}"
| "lang (Alt r s) = lang r \<union> lang s"
| "lang (Seq r s) = {u @ v | u v. u \<in> lang r \<and> v \<in> lang s}"
| "lang (Star r) = star (lang r)"

section \<open>Persistence gateway (database.py)\<close>

subsection \<open>Values, statements and the driver\<close>

text \<open>
  The values that cross the boundary between Python and SQLite: \<open>None\<close>, an
  \<open>int\<close>, a \<open>float\<close> (kept as an exact rational) and a \<open>str\<close>.
\<close>

datatype sqlval = NULL | INTEGER int | REAL rat | TEXT string

text \<open>
  The statements the modelled code sends, parsed, with each \<open>?\<close> already bound to
  its parameter. \<open>DatetimeNow\<close> is the SQL expression \<open>datetime('now')\<close>.
\<close>

datatype expr = Param sqlval | DatetimeNow

datatype cond =
    Always
  | ColEq string sqlval
  | ColInSelect string string string string sqlval

datatype selection = AllColumns | Columns "string list" | CountAll

datatype ctype = INTEGER_T | REAL_T | TEXT_T | NUMERIC_T | BLOB_T

datatype dflt = NoDefault | Default sqlval | CURRENT_TIMESTAMP

text \<open>
  A column of a \<open>CREATE TABLE\<close>: \<open>RowId n True\<close> is
  \<open>n INTEGER PRIMARY KEY AUTOINCREMENT\<close>, \<open>RowId n False\<close> the hidden rowid of a
  table without one; \<open>Col n t nn uq d\<close> has the declared type, \<open>NOT NULL\<close>,
  \<open>UNIQUE\<close> or \<open>PRIMARY KEY\<close>, and the default.
\<close>

datatype column = RowId string bool | Col string ctype bool bool dflt

datatype sql =
    CREATE_TABLE_IF_NOT_EXISTS string "column list"
  | SELECT selection string cond "nat option"
  | INSERT bool string "string list" "expr list"
  | UPDATE string "(string \<times> sqlval) list" cond
  | DELETE string cond

datatype sqlite_error = OperationalError string | IntegrityError string

datatype py_exception = IndexError | TypeError | Sqlite3Error sqlite_error

text \<open>
  The \<open>sqlite3\<close> connection and cursor as the gateway uses them. Each call may
  raise \<open>sqlite3.Error\<close> and leaves a connection state behind.
\<close>

record 'c driver =
  cursor_execute :: "sql \<Rightarrow> 'c \<Rightarrow> (sqlite_error + unit) \<times> 'c"
  cursor_fetchall :: "'c \<Rightarrow> (sqlite_error + sqlval list list) \<times> 'c"
  conn_commit :: "'c \<Rightarrow> (sqlite_error + unit) \<times> 'c"
  cursor_lastrowid :: "'c \<Rightarrow> int option"

text \<open>The \<open>DBManager\<close> object: its connection and what it has printed.\<close>

record 'c dbmanager =
  conn :: 'c
  stdout :: "string list"

fun error_text :: "sqlite_error \<Rightarrow> string" where
  "error_text (OperationalError msg) = msg"
| "error_text (IntegrityError msg) = msg"

subsection \<open>fetch and execute\<close>

text \<open>\<open>DBManager.fetch\<close>, lines 642 to 649.\<close>

definition fetch :: "'c driver \<Rightarrow> 'c dbmanager \<Rightarrow> sql \<Rightarrow> sqlval list list \<times> 'c dbmanager" where
  "fetch drv db query =
     (case cursor_execute drv query (conn db) of
        (Inl e, c1) \<Rightarrow>
          ([], db\<lparr>conn := c1, stdout := stdout db @ [''Error en consulta: '' @ error_text e]\<rparr>)
      | (Inr _, c1) \<Rightarrow>
          (case cursor_fetchall drv c1 of
             (Inl e, c2) \<Rightarrow>
               ([], db\<lparr>conn := c2, stdout := stdout db @ [''Error en consulta: '' @ error_text e]\<rparr>)
           | (Inr rows, c2) \<Rightarrow> (rows, db\<lparr>conn := c2\<rparr>)))"

text \<open>\<open>DBManager.execute\<close>, lines 651 to 659.\<close>

definition execute :: "'c driver \<Rightarrow> 'c dbmanager \<Rightarrow> sql \<Rightarrow> int option \<times> 'c dbmanager" where
  "execute drv db query =
     (case cursor_execute drv query (conn db) of
        (Inl e, c1) \<Rightarrow>
          (None, db\<lparr>conn := c1,
                     stdout := stdout db @ [''Error en operaci'' @ [CHR 0xF3] @ ''n: '' @ error_text e]\<rparr>)
      | (Inr _, c1) \<Rightarrow>
          (case conn_commit drv c1 of
             (Inl e, c2) \<Rightarrow>
               (None, db\<lparr>conn := c2,
                          stdout := stdout db @ [''Error en operaci'' @ [CHR 0xF3] @ ''n: '' @ error_text e]\<rparr>)
           | (Inr _, c2) \<Rightarrow> (cursor_lastrowid drv c2, db\<lparr>conn := c2\<rparr>)))"

text \<open>\<open>result[0][0]\<close>: an \<open>IndexError\<close> when the list, or its first tuple, is empty.\<close>

definition first_cell :: "sqlval list list \<Rightarrow> py_exception + sqlval" where
  "first_cell result =
     (case result of
        [] \<Rightarrow> Inl IndexError
      | r # _ \<Rightarrow> (case r of [] \<Rightarrow> Inl IndexError | v # _ \<Rightarrow> Inr v))"

subsection \<open>Settings\<close>

text \<open>\<open>DBManager.get_config\<close>, lines 630 to 633; \<open>dfl\<close> is the parameter \<open>default\<close>.\<close>

definition get_config ::
  "'c driver \<Rightarrow> 'c dbmanager \<Rightarrow> string \<Rightarrow> sqlval \<Rightarrow> (py_exception + sqlval) \<times> 'c dbmanager"
where
  "get_config drv db clave dfl =
     (case fetch drv db (SELECT (Columns [''valor'']) ''Configuracion'' (ColEq ''clave'' (TEXT clave)) None) of
        (result, db1) \<Rightarrow> (if result \<noteq> [] then first_cell result else Inr dfl, db1))"

text \<open>\<open>DBManager.set_config\<close>, lines 635 to 640.\<close>

definition set_config :: "'c driver \<Rightarrow> 'c dbmanager \<Rightarrow> string \<Rightarrow> string \<Rightarrow> 'c dbmanager" where
  "set_config drv db clave valor =
     snd (execute drv db
       (INSERT True ''Configuracion'' [''clave'', ''valor'', ''fecha_actualizacion'']
          [Param (TEXT clave), Param (TEXT valor), DatetimeNow]))"

subsection \<open>Reference semantics of the statements\<close>

text \<open>
  A database file as SQLite keeps it: for each table its columns and its rows in rowid
  order (a row gives each column its value), the \<open>sqlite_sequence\<close> counters of
  \<open>AUTOINCREMENT\<close>, the wall clock that \<open>datetime('now')\<close> and
  \<open>CURRENT_TIMESTAMP\<close> read, and the state of the cursor. Foreign keys are not
  enforced (the code never turns the pragma on). Conversions between text and numbers
  by column affinity are left out: the modelled callers bind no such value.
\<close>

type_synonym row = "(string \<times> sqlval) list"

record connection =
  tables :: "string \<rightharpoonup> column list \<times> row list"
  sqlite_sequence :: "string \<Rightarrow> int"
  clock :: string
  cursor_rows :: "sqlval list list"
  lastrowid :: "int option"

definition cell :: "row \<Rightarrow> string \<Rightarrow> sqlval" where
  "cell r c = (case map_of r c of None \<Rightarrow> NULL | Some v \<Rightarrow> v)"

text \<open>The comparison \<open>a = b\<close> of SQL: never true on \<open>NULL\<close>, numeric across types.\<close>

fun sql_eq :: "sqlval \<Rightarrow> sqlval \<Rightarrow> bool" where
  "sql_eq NULL b = False"
| "sql_eq a NULL = False"
| "sql_eq (INTEGER i) (REAL r) = (of_int i = r)"
| "sql_eq (REAL r) (INTEGER i) = (r = of_int i)"
| "sql_eq a b = (a = b)"

text \<open>Column affinity on numbers.\<close>

fun store :: "ctype \<Rightarrow> sqlval \<Rightarrow> sqlval" where
  "store REAL_T (INTEGER i) = REAL (of_int i)"
| "store INTEGER_T (REAL r) = (if r = of_int \<lfloor>r\<rfloor> then INTEGER \<lfloor>r\<rfloor> else REAL r)"
| "store NUMERIC_T (REAL r) = (if r = of_int \<lfloor>r\<rfloor> then INTEGER \<lfloor>r\<rfloor> else REAL r)"
| "store t v = v"

fun column_name :: "column \<Rightarrow> string" where
  "column_name (RowId n a) = n"
| "column_name (Col n t nn uq d) = n"

fun column_type :: "column \<Rightarrow> ctype" where
  "column_type (RowId n a) = INTEGER_T"
| "column_type (Col n t nn uq d) = t"

fun visible :: "column \<Rightarrow> bool" where
  "visible (RowId n a) = a"
| "visible (Col n t nn uq d) = True"

fun autoincrement :: "column list \<Rightarrow> bool" where
  "autoincrement [] = False"
| "autoincrement (RowId n a # cs) = (a \<or> autoincrement cs)"
| "autoincrement (Col n t nn uq d # cs) = autoincrement cs"

fun rowid_name :: "column list \<Rightarrow> string" where
  "rowid_name [] = ''rowid''"
| "rowid_name (RowId n a # cs) = n"
| "rowid_name (Col n t nn uq d # cs) = rowid_name cs"

fun unique_columns :: "column list \<Rightarrow> string list" where
  "unique_columns [] = []"
| "unique_columns (RowId n a # cs) = n # unique_columns cs"
| "unique_columns (Col n t nn uq d # cs) = (if uq then n # unique_columns cs else unique_columns cs)"

definition type_of_column :: "column list \<Rightarrow> string \<Rightarrow> ctype" where
  "type_of_column cols n =
     (case filter (\<lambda>col. column_name col = n) cols of [] \<Rightarrow> BLOB_T | col # _ \<Rightarrow> column_type col)"

definition rowid_value :: "string \<Rightarrow> row \<Rightarrow> int" where
  "rowid_value idcol r = (case cell r idcol of INTEGER n \<Rightarrow> n | _ \<Rightarrow> 0)"

definition next_rowid :: "int \<Rightarrow> string \<Rightarrow> row list \<Rightarrow> int" where
  "next_rowid seq idcol rows = 1 + fold max (map (rowid_value idcol) rows) seq"

fun eval_expr :: "string \<Rightarrow> expr \<Rightarrow> sqlval" where
  "eval_expr now (Param v) = v"
| "eval_expr now DatetimeNow = TEXT now"

fun default_value :: "string \<Rightarrow> dflt \<Rightarrow> sqlval" where
  "default_value now NoDefault = NULL"
| "default_value now (Default v) = v"
| "default_value now CURRENT_TIMESTAMP = TEXT now"

text \<open>
  The value an \<open>INSERT\<close> gives a column: the bound value when the column is listed,
  its default otherwise; the rowid is assigned when none (or \<open>NULL\<close>) is given.
\<close>

fun new_cell :: "string \<Rightarrow> row \<Rightarrow> int \<Rightarrow> column \<Rightarrow> string \<times> sqlval" where
  "new_cell now given rid (RowId n a) =
     (n, case map_of given n of Some (INTEGER i) \<Rightarrow> INTEGER i | _ \<Rightarrow> INTEGER rid)"
| "new_cell now given rid (Col n t nn uq d) =
     (n, case map_of given n of Some v \<Rightarrow> store t v | None \<Rightarrow> default_value now d)"

fun null_violation :: "row \<Rightarrow> column \<Rightarrow> bool" where
  "null_violation r (RowId n a) = False"
| "null_violation r (Col n t nn uq d) = (nn \<and> cell r n = NULL)"

definition conflicts :: "string list \<Rightarrow> row \<Rightarrow> row \<Rightarrow> bool" where
  "conflicts ucols new old = list_ex (\<lambda>u. sql_eq (cell new u) (cell old u)) ucols"

fun holds :: "(string \<rightharpoonup> column list \<times> row list) \<Rightarrow> cond \<Rightarrow> row \<Rightarrow> bool" where
  "holds tbls Always r = True"
| "holds tbls (ColEq c v) r = sql_eq (cell r c) v"
| "holds tbls (ColInSelect c c2 t2 c3 v) r =
     (case tbls t2 of
        None \<Rightarrow> False
      | Some (cols2, rows2) \<Rightarrow>
          list_ex (\<lambda>r2. sql_eq (cell r2 c3) v \<and> sql_eq (cell r c) (cell r2 c2)) rows2)"

definition known :: "column list \<Rightarrow> string \<Rightarrow> bool" where
  "known cols n = (n \<in> set (map column_name cols))"

fun cond_ok :: "(string \<rightharpoonup> column list \<times> row list) \<Rightarrow> column list \<Rightarrow> cond \<Rightarrow> bool" where
  "cond_ok tbls cols Always = True"
| "cond_ok tbls cols (ColEq c v) = known cols c"
| "cond_ok tbls cols (ColInSelect c c2 t2 c3 v) =
     (known cols c \<and> (case tbls t2 of None \<Rightarrow> False | Some (cols2, rows2) \<Rightarrow> known cols2 c2 \<and> known cols2 c3))"

fun selection_ok :: "column list \<Rightarrow> selection \<Rightarrow> bool" where
  "selection_ok cols AllColumns = True"
| "selection_ok cols (Columns names) = list_all (known cols) names"
| "selection_ok cols CountAll = True"

fun project :: "column list \<Rightarrow> selection \<Rightarrow> row list \<Rightarrow> sqlval list list" where
  "project cols AllColumns rows =
     map (\<lambda>r. map (\<lambda>col. cell r (column_name col)) (filter visible cols)) rows"
| "project cols (Columns names) rows = map (\<lambda>r. map (cell r) names) rows"
| "project cols CountAll rows = [[INTEGER (int (length rows))]]"

fun limit :: "nat option \<Rightarrow> 'a list \<Rightarrow> 'a list" where
  "limit None xs = xs"
| "limit (Some n) xs = take n xs"

text \<open>The row an \<open>UPDATE\<close> leaves where its condition holds.\<close>

definition updated :: "column list \<Rightarrow> (string \<times> sqlval) list \<Rightarrow> row \<Rightarrow> row" where
  "updated cols sets r =
     map (\<lambda>(n, v). (n, case map_of sets n of None \<Rightarrow> v | Some w \<Rightarrow> store (type_of_column cols n) w)) r"

definition unique_ok :: "string list \<Rightarrow> row list \<Rightarrow> bool" where
  "unique_ok ucols rows =
     list_all (\<lambda>u. distinct (filter (\<lambda>v. v \<noteq> NULL) (map (\<lambda>r. cell r u) rows))) ucols"

text \<open>
  An \<open>INSERT\<close> (or \<open>INSERT OR REPLACE\<close>) on the rows of one table: the rows it
  leaves and the rowid of the new row. \<open>OR REPLACE\<close> deletes the rows that collide
  with the new one on a \<open>UNIQUE\<close> or \<open>PRIMARY KEY\<close> column.
\<close>

definition insert_into ::
  "bool \<Rightarrow> string \<Rightarrow> string \<Rightarrow> column list \<Rightarrow> string list \<Rightarrow> expr list \<Rightarrow> int \<Rightarrow> row list
     \<Rightarrow> sqlite_error + row list \<times> int"
where
  "insert_into or_replace now t cols names exprs seq rows =
     (if length names \<noteq> length exprs \<or> \<not> list_all (known cols) names
      then Inl (OperationalError ''no such column'')
      else
        let given = zip names (map (eval_expr now) exprs);
            rid = next_rowid seq (rowid_name cols) rows;
            new = map (new_cell now given rid) cols;
            ucols = unique_columns cols
        in if list_ex (null_violation new) cols
           then Inl (IntegrityError (''NOT NULL constraint failed: '' @ t))
           else if \<not> or_replace \<and> list_ex (conflicts ucols new) rows
           then Inl (IntegrityError (''UNIQUE constraint failed: '' @ t))
           else Inr (filter (\<lambda>old. \<not> conflicts ucols new old) rows @ [new],
                     rowid_value (rowid_name cols) new))"

text \<open>\<open>sqlite_sequence\<close> follows the rowids of an \<open>AUTOINCREMENT\<close> table only.\<close>

definition bump_sequence :: "column list \<Rightarrow> int \<Rightarrow> int \<Rightarrow> int" where
  "bump_sequence cols seq rid = (if autoincrement cols then max seq rid else seq)"

fun exec :: "sql \<Rightarrow> connection \<Rightarrow> sqlite_error + connection" where
  "exec (CREATE_TABLE_IF_NOT_EXISTS t cols) c =
     (case tables c t of
        None \<Rightarrow> Inr (c\<lparr>tables := (tables c)(t \<mapsto> (cols, [])), cursor_rows := []\<rparr>)
      | Some tbl \<Rightarrow> Inr (c\<lparr>cursor_rows := []\<rparr>))"
| "exec (SELECT sel t cond lmt) c =
     (case tables c t of
        None \<Rightarrow> Inl (OperationalError (''no such table: '' @ t))
      | Some (cols, rows) \<Rightarrow>
          if \<not> selection_ok cols sel \<or> \<not> cond_ok (tables c) cols cond
          then Inl (OperationalError ''no such column'')
          else Inr (c\<lparr>cursor_rows :=
                        limit lmt (project cols sel (filter (holds (tables c) cond) rows))\<rparr>))"
| "exec (INSERT or_replace t names exprs) c =
     (case tables c t of
        None \<Rightarrow> Inl (OperationalError (''no such table: '' @ t))
      | Some (cols, rows) \<Rightarrow>
          (case insert_into or_replace (clock c) t cols names exprs (sqlite_sequence c t) rows of
             Inl e \<Rightarrow> Inl e
           | Inr (rows', rid) \<Rightarrow>
               Inr (c\<lparr>tables := (tables c)(t \<mapsto> (cols, rows')),
                      sqlite_sequence := (sqlite_sequence c)(t := bump_sequence cols (sqlite_sequence c t) rid),
                      lastrowid := Some rid,
                      cursor_rows := []\<rparr>)))"
| "exec (UPDATE t sets cond) c =
     (case tables c t of
        None \<Rightarrow> Inl (OperationalError (''no such table: '' @ t))
      | Some (cols, rows) \<Rightarrow>
          if \<not> list_all (known cols) (map fst sets) \<or> \<not> cond_ok (tables c) cols cond
          then Inl (OperationalError ''no such column'')
          else
            let rows' = map (\<lambda>r. if holds (tables c) cond r then updated cols sets r else r) rows
            in if list_ex (\<lambda>r. holds (tables c) cond r \<and> list_ex (null_violation (updated cols sets r)) cols) rows
               then Inl (IntegrityError (''NOT NULL constraint failed: '' @ t))
               else if \<not> unique_ok (filter (\<lambda>u. u \<in> set (map fst sets)) (unique_columns cols)) rows'
               then Inl (IntegrityError (''UNIQUE constraint failed: '' @ t))
               else Inr (c\<lparr>tables := (tables c)(t \<mapsto> (cols, rows')), cursor_rows := []\<rparr>))"
| "exec (DELETE t cond) c =
     (case tables c t of
        None \<Rightarrow> Inl (OperationalError (''no such table: '' @ t))
      | Some (cols, rows) \<Rightarrow>
          if \<not> cond_ok (tables c) cols cond
          then Inl (OperationalError ''no such column'')
          else Inr (c\<lparr>tables := (tables c)(t \<mapsto> (cols, filter (\<lambda>r. \<not> holds (tables c) cond r) rows)),
                       cursor_rows := []\<rparr>))"

text \<open>The driver over such a database: a statement that fails changes nothing.\<close>

definition sqlite3 :: "connection driver" where
  "sqlite3 =
     \<lparr>cursor_execute = (\<lambda>q c. case exec q c of Inl e \<Rightarrow> (Inl e, c) | Inr c' \<Rightarrow> (Inr (), c')),
      cursor_fetchall = (\<lambda>c. (Inr (cursor_rows c), c\<lparr>cursor_rows := []\<rparr>)),
      conn_commit = (\<lambda>c. (Inr (), c)),
      cursor_lastrowid = lastrowid\<rparr>"


subsection \<open>The schema\<close>

text \<open>
  The tables of \<open>create_tables\<close>, lines 20 to 314, column by column and in the
  order of creation. A table without an \<open>INTEGER PRIMARY KEY\<close> has the hidden rowid.
\<close>

definition Configuracion_columns :: "column list" where
  "Configuracion_columns =
     [RowId ''rowid'' False,
      Col ''clave'' TEXT_T False True NoDefault,
      Col ''valor'' TEXT_T False False NoDefault,
      Col ''descripcion'' TEXT_T False False NoDefault,
      Col ''categoria'' TEXT_T False False NoDefault,
      Col ''fecha_actualizacion'' NUMERIC_T False False CURRENT_TIMESTAMP]"




































subsection \<open>Schema creation and the initial data\<close>









subsection \<open>Inventory movements\<close>






section \<open>Deleting a client (frames/clients.py)\<close>

text \<open>
  The answer to a \<open>QMessageBox.question\<close> with the buttons Yes and No, and the message
  boxes the frame shows, by kind and title.
\<close>

datatype reply = Yes | No

datatype dialog = Warning string | Question string | Success string | ErrorBox string

record clients_frame =
  current_client_id :: "int option"

text \<open>\<open>ventas[0][0] > 0\<close> in Python: a \<open>TypeError\<close> on \<open>None\<close> or a string.\<close>

fun py_gt_zero :: "sqlval \<Rightarrow> py_exception + bool" where
  "py_gt_zero (INTEGER n) = Inr (n > 0)"
| "py_gt_zero (REAL r) = Inr (r > 0)"
| "py_gt_zero v = Inl TypeError"

definition confirmacion :: string where
  "confirmacion = ''Confirmaci'' @ [CHR 0xF3] @ ''n''"

text \<open>
  \<open>ClientsFrame.delete_client\<close>, lines 718 to 785. \<open>reply\<close> answers the first
  question that is asked and \<open>reply2\<close> the second one, if it comes to that. An
  exception inside the \<open>try\<close> ends in the error box and skips \<open>clear_form\<close>.
  \<open>load_clients\<close>, which only reads and repaints the table, is left out.
\<close>

definition delete_client ::
  "'c driver \<Rightarrow> 'c dbmanager \<Rightarrow> clients_frame \<Rightarrow> reply \<Rightarrow> reply
     \<Rightarrow> 'c dbmanager \<times> clients_frame \<times> dialog list"
where
  "delete_client drv db fr reply reply2 =
     (case current_client_id fr of
        None \<Rightarrow> (db, fr, [Warning ''Advertencia''])
      | Some cid \<Rightarrow>
          if cid = 0 then (db, fr, [Warning ''Advertencia''])
          else
            (case fetch drv db (SELECT CountAll ''Ventas'' (ColEq ''id_cliente'' (INTEGER cid)) None) of
               (ventas, db1) \<Rightarrow>
                 (case (if ventas \<noteq> []
                        then (case first_cell ventas of Inl e \<Rightarrow> Inl e | Inr v \<Rightarrow> py_gt_zero v)
                        else Inr False) of
                    Inl e \<Rightarrow> (db1, fr, [ErrorBox ''Error''])
                  | Inr tiene_ventas \<Rightarrow>
                      if tiene_ventas then
                        (if reply = Yes then
                           (snd (execute drv db1
                                   (UPDATE ''Clientes'' [(''activo'', INTEGER 0)] (ColEq ''id'' (INTEGER cid)))),
                            fr\<lparr>current_client_id := None\<rparr>,
                            [Question ''Cliente con Ventas'', Success ''Cliente Desactivado''])
                         else if reply2 = Yes then
                           (let db2 = snd (execute drv db1
                                        (DELETE ''DetalleVenta''
                                           (ColInSelect ''venta_id'' ''id'' ''Ventas'' ''id_cliente'' (INTEGER cid))));
                                db3 = snd (execute drv db2
                                        (DELETE ''Ventas'' (ColEq ''id_cliente'' (INTEGER cid))));
                                db4 = snd (execute drv db3
                                        (DELETE ''Clientes'' (ColEq ''id'' (INTEGER cid))))
                            in (db4, fr\<lparr>current_client_id := None\<rparr>,
                                [Question ''Cliente con Ventas'', Question confirmacion,
                                 Success ''Cliente Eliminado'']))
                         else (db1, fr\<lparr>current_client_id := None\<rparr>,
                               [Question ''Cliente con Ventas'', Question confirmacion]))
                      else
                        (if reply = Yes then
                           (snd (execute drv db1 (DELETE ''Clientes'' (ColEq ''id'' (INTEGER cid)))),
                            fr\<lparr>current_client_id := None\<rparr>,
                            [Question confirmacion, Success ''Cliente Eliminado''])
                         else (db1, fr\<lparr>current_client_id := None\<rparr>, [Question confirmacion])))))"

text \<open>A table whose rowids are integers, as SQLite keeps them.\<close>

definition rowids_ok :: "column list \<Rightarrow> row list \<Rightarrow> bool" where
  "rowids_ok cols rows =
     list_all (\<lambda>r. case cell r (rowid_name cols) of INTEGER n \<Rightarrow> True | _ \<Rightarrow> False) rows"

subsection \<open>Notions used in the statements\<close>

text \<open>The row that \<open>set_config\<close> writes: only key, value and time are given.\<close>

definition setting_row :: "int \<Rightarrow> string \<Rightarrow> string \<Rightarrow> string \<Rightarrow> row" where
  "setting_row rid clave valor now =
     [(''rowid'', INTEGER rid), (''clave'', TEXT clave), (''valor'', TEXT valor),
      (''descripcion'', NULL), (''categoria'', NULL), (''fecha_actualizacion'', TEXT now)]"




text \<open>
  A database whose settings table holds the first row of the initial data, written at
  08:00, read at 09:30.
\<close>

definition settings_example :: "connection dbmanager" where
  "settings_example =
     \<lparr>conn =
        \<lparr>tables =
           [''Configuracion'' \<mapsto>
              (Configuracion_columns,
               [[(''rowid'', INTEGER 1), (''clave'', TEXT ''empresa_nombre''),
                 (''valor'', TEXT ''Mi Empresa ERP''),
                 (''descripcion'', TEXT ''Nombre legal de la empresa''),
                 (''categoria'', TEXT ''empresa''),
                 (''fecha_actualizacion'', TEXT ''2025-01-01 08:00:00'')]])],
         sqlite_sequence = (\<lambda>t. 0), clock = ''2025-01-01 09:30:00'', cursor_rows = [],
         lastrowid = None\<rparr>,
      stdout = []\<rparr>"

section \<open>Properties\<close>

subsection \<open>The history list\<close>

lemma history_show_next [simp]:
  "notification_history (snd (show_next_notification m)) = notification_history m"
  by (simp add: show_next_notification_def Let_def split: list.splits prod.splits)

lemma history_show_notification:
  "notification_history (snd (show_notification m title message typ duration cb adata icon now)) =
     save_history (make_data (dicts_created m) title message typ cb adata icon now) (notification_history m)"
  by (simp add: show_notification_def Let_def)

lemma history_on_widget_closed [simp]:
  "notification_history (on_widget_closed m w) = notification_history m"
  by (simp add: on_widget_closed_def)

lemma history_run_callback [simp]:
  "notification_history (snd (run_callback cb m)) = notification_history m"
  by (cases cb) simp_all

lemma dicts_show_next [simp]:
  "dicts_created (snd (show_next_notification m)) = dicts_created m"
  by (simp add: show_next_notification_def Let_def split: list.splits prod.splits)

lemma dicts_run_callback [simp]:
  "dicts_created (snd (run_callback cb m)) = dicts_created m"
  by (cases cb) (simp_all add: on_widget_closed_def)

lemma dicts_show_notification [simp]:
  "dicts_created (snd (show_notification m title message typ duration cb adata icon now)) =
     Suc (dicts_created m)"
  by (simp add: show_notification_def Let_def)

lemma dicts_step:
  "dicts_created (snd (step m e)) =
     (case e of Submit title message typ duration cb adata icon now \<Rightarrow> Suc (dicts_created m)
      | _ \<Rightarrow> dicts_created m)"
  by (cases e)
     (simp_all add: on_widget_closed_def auto_clean_history_def
        mark_all_as_read_def write_read_def on_notification_click_def save_config_def)

lemma save_history_take:
  "length history \<le> 200 \<Longrightarrow> save_history data history = take 200 (data # history)"
  by (cases "length history = 200") (simp_all add: save_history_def Let_def butlast_conv_take)

lemma length_save_history:
  "length history \<le> 200 \<Longrightarrow> length (save_history data history) \<le> 200"
  by (simp add: save_history_take)

lemma length_history_step:
  "length (notification_history m) \<le> 200 \<Longrightarrow> length (notification_history (snd (step m e))) \<le> 200"
proof (cases e)
  case (Submit title message ty duration cb adata icon now)
  assume "length (notification_history m) \<le> 200"
  then show ?thesis
    using Submit by (simp add: history_show_notification length_save_history)
next
  case (AutoClean cutoff_date)
  assume bound: "length (notification_history m) \<le> 200"
  have "length (filter (\<lambda>notif. n_timestamp notif > cutoff_date) (notification_history m))
      \<le> length (notification_history m)"
    by (rule length_filter_le)
  from this bound
  have "length (filter (\<lambda>notif. n_timestamp notif > cutoff_date) (notification_history m)) \<le> 200"
    by (rule le_trans)
  then show ?thesis
    using AutoClean by (simp add: auto_clean_history_def)
qed (simp_all add: mark_all_as_read_def write_read_def on_notification_click_def save_config_def)

lemma length_history_run:
  "length (notification_history m) \<le> 200 \<Longrightarrow> length (notification_history (run m evs)) \<le> 200"
  unfolding run_def
  by (induction evs arbitrary: m) (simp_all add: length_history_step)

lemma take_append_take: "take n (xs @ take n ys) = take n (xs @ ys)"
  by (simp add: min_def)

lemma history_run_submitted:
  "length (notification_history m) \<le> 200 \<Longrightarrow> \<forall>e \<in> set evs. \<not> edits_history e \<Longrightarrow>
     notification_history (foldl (\<lambda>m e. snd (step m e)) m evs) =
       take 200 (rev (submitted (dicts_created m) evs) @ notification_history m)"
proof (induction evs arbitrary: m)
  case Nil
  then show ?case by simp
next
  case (Cons e evs)
  have len: "length (notification_history (snd (step m e))) \<le> 200"
    using Cons.prems(1) by (rule length_history_step)
  have rest: "\<forall>e \<in> set evs. \<not> edits_history e"
    using Cons.prems(2) by simp
  have ih: "notification_history (foldl (\<lambda>m e. snd (step m e)) (snd (step m e)) evs) =
      take 200 (rev (submitted (dicts_created (snd (step m e))) evs) @ notification_history (snd (step m e)))"
    using Cons.IH [OF len rest] .
  show ?case
  proof (cases e)
    case (Submit title message ty duration cb adata icon now)
    let ?d = "make_data (dicts_created m) title message ty cb adata icon now"
    have n: "dicts_created (snd (step m e)) = Suc (dicts_created m)"
      using Submit by simp
    have "notification_history (snd (step m e)) = save_history ?d (notification_history m)"
      using Submit by (simp add: history_show_notification)
    also have "\<dots> = take 200 (?d # notification_history m)"
      using Cons.prems(1) by (rule save_history_take)
    finally have "notification_history (foldl (\<lambda>m e. snd (step m e)) (snd (step m e)) evs) =
        take 200 (rev (submitted (Suc (dicts_created m)) evs) @ take 200 (?d # notification_history m))"
      using ih n by simp
    also have "\<dots> = take 200 (rev (submitted (Suc (dicts_created m)) evs) @ ?d # notification_history m)"
      by (rule take_append_take)
    finally show ?thesis
      using Submit by simp
  next
    case (Fire i)
    have n: "dicts_created (snd (step m e)) = dicts_created m"
      unfolding dicts_step Fire by simp
    show ?thesis
      using ih Cons.prems(1) Fire unfolding n by simp
  next
    case (Dismiss w)
    have n: "dicts_created (snd (step m e)) = dicts_created m"
      unfolding dicts_step Dismiss by simp
    show ?thesis
      using ih Cons.prems(1) Dismiss unfolding n by simp
  next
    case (AutoClean c)
    then show ?thesis using Cons.prems(2) by simp
  next
    case ClearHistory
    then show ?thesis using Cons.prems(2) by simp
  next
    case MarkAllRead
    then show ?thesis using Cons.prems(2) by simp
  next
    case (ClickHistory row)
    then show ?thesis using Cons.prems(2) by simp
  next
    case (SaveConfig seconds)
    have n: "dicts_created (snd (step m e)) = dicts_created m"
      unfolding dicts_step SaveConfig by simp
    show ?thesis
      using ih Cons.prems(1) SaveConfig unfolding n by (simp add: save_config_def)
  qed
qed

text \<open>
  C2. A submission puts the new notification at the front of the history and, when the
  list would pass 200 entries, drops its last (oldest) element; over every sequence of
  events the history never holds more than 200 entries; and as long as no event edits
  the history, it is the 200 most recent submissions, newest first.
\<close>

theorem history_capped_most_recent_first:
  "notification_history (snd (show_notification m title message typ duration cb adata icon now)) =
     (if length (notification_history m) < 200
      then make_data (dicts_created m) title message typ cb adata icon now # notification_history m
      else make_data (dicts_created m) title message typ cb adata icon now # butlast (notification_history m))
   \<and> (length (notification_history m) \<le> 200 \<longrightarrow>
        length (notification_history (run m evs)) \<le> 200)
   \<and> (length (notification_history m) \<le> 200 \<longrightarrow> (\<forall>e \<in> set evs. \<not> edits_history e) \<longrightarrow>
        notification_history (run m evs) =
          take 200 (rev (submitted (dicts_created m) evs) @ notification_history m))"
proof (intro conjI impI)
  show "notification_history (snd (show_notification m title message typ duration cb adata icon now)) =
     (if length (notification_history m) < 200
      then make_data (dicts_created m) title message typ cb adata icon now # notification_history m
      else make_data (dicts_created m) title message typ cb adata icon now # butlast (notification_history m))"
    by (cases "notification_history m" rule: rev_cases)
       (simp_all add: history_show_notification save_history_def Let_def)
next
  assume "length (notification_history m) \<le> 200"
  then show "length (notification_history (run m evs)) \<le> 200"
    by (rule length_history_run)
next
  assume "length (notification_history m) \<le> 200" and "\<forall>e \<in> set evs. \<not> edits_history e"
  then show "notification_history (run m evs) =
      take 200 (rev (submitted (dicts_created m) evs) @ notification_history m)"
    unfolding run_def by (rule history_run_submitted)
qed

theorem history_capped_most_recent_first_witness:
  "length (notification_history new_manager) \<le> 200
   \<and> \<not> edits_history (Submit ''Venta'' ''uno'' ''success'' None None None ''i'' 10)
   \<and> \<not> edits_history (Fire 0)
   \<and> \<not> edits_history (Submit ''Stock'' ''dos'' ''warning'' (Some 6000) None None ''p'' 20)
   \<and> notification_history
        (run new_manager
          [Submit ''Venta'' ''uno'' ''success'' None None None ''i'' 10,
           Fire 0,
           Submit ''Stock'' ''dos'' ''warning'' (Some 6000) None None ''p'' 20]) =
       [make_data 1 ''Stock'' ''dos'' ''warning'' None None ''p'' 20,
        make_data 0 ''Venta'' ''uno'' ''success'' None None ''i'' 10]"
  using history_capped_most_recent_first
    [where m = new_manager
       and evs = "[Submit ''Venta'' ''uno'' ''success'' None None None ''i'' 10,
                   Fire 0,
                   Submit ''Stock'' ''dos'' ''warning'' (Some 6000) None None ''p'' 20]"]
  by (simp add: new_manager_def)

subsection \<open>Admission of queued notifications\<close>

lemma max_show_next [simp]:
  "max_notifications (snd (show_next_notification m)) = max_notifications m"
  by (simp add: show_next_notification_def Let_def split: list.splits prod.splits)

lemma max_run_callback [simp]:
  "max_notifications (snd (run_callback cb m)) = max_notifications m"
  by (cases cb) (simp_all add: on_widget_closed_def)

lemma max_step [simp]: "max_notifications (snd (step m e)) = max_notifications m"
  by (cases e) (simp_all add: show_notification_def Let_def on_widget_closed_def
      auto_clean_history_def mark_all_as_read_def write_read_def on_notification_click_def
      save_config_def)

lemma max_run [simp]: "max_notifications (run m evs) = max_notifications m"
  unfolding run_def by (induction evs arbitrary: m) simp_all








lemma unread_set_read [simp]: "unread (set_read ids notif) = unread notif"
  by (simp add: unread_def set_read_def)

lemma map_unread_set_read [simp]: "map unread (map (set_read ids) xs) = map unread xs"
  by (simp add: comp_def)


lemma fit_queue_read:
  "list_all (\<lambda>(data, duration). int32 duration) (map (\<lambda>(data, duration). (set_read ids data, duration)) q) =
   list_all (\<lambda>(data, duration). int32 duration) q"
  by (induction q) auto


lemma fit_write_read [simp]: "durations_fit (write_read ids m) = durations_fit m"
  by (simp add: durations_fit_def write_read_def fit_queue_read)























subsection \<open>Validation of the client form\<close>

lemma nullable_lang: "nullable r \<longleftrightarrow> [] \<in> lang r"
  by (induction r) (auto intro: star.star_nil)

lemma star_cons:
  "c # w \<in> star A \<longleftrightarrow> (\<exists>u v. w = u @ v \<and> c # u \<in> A \<and> v \<in> star A)"
proof
  assume "c # w \<in> star A"
  then show "\<exists>u v. w = u @ v \<and> c # u \<in> A \<and> v \<in> star A"
  proof (induction "c # w" arbitrary: w rule: star.induct)
    case (star_app u v)
    then show ?case by (cases u) auto
  qed
next
  assume "\<exists>u v. w = u @ v \<and> c # u \<in> A \<and> v \<in> star A"
  then obtain u v where "w = u @ v" "c # u \<in> A" "v \<in> star A" by blast
  then show "c # w \<in> star A"
    using star.star_app [of "c # u" A v] by simp
qed

lemma lang_SeqI: "u \<in> lang r \<Longrightarrow> v \<in> lang s \<Longrightarrow> u @ v \<in> lang (Seq r s)"
  by (simp del: append_Cons append_Nil) blast

lemma deriv_lang: "w \<in> lang (deriv c r) \<longleftrightarrow> c # w \<in> lang r"
proof (induction r arbitrary: w)
  case (Seq r s)
  show ?case
  proof
    assume "w \<in> lang (deriv c (Seq r s))"
    then consider (l) u v where "w = u @ v" "u \<in> lang (deriv c r)" "v \<in> lang s"
      | (r) "nullable r" "w \<in> lang (deriv c s)"
      by (auto split: if_splits)
    then show "c # w \<in> lang (Seq r s)"
    proof cases
      case l
      then have "c # u \<in> lang r" using Seq.IH(1) by simp
      then have "(c # u) @ v \<in> lang (Seq r s)" using l(3) by (rule lang_SeqI)
      then show ?thesis using l(1) by simp
    next
      case r
      then have "[] \<in> lang r" "c # w \<in> lang s" using Seq.IH(2) nullable_lang by auto
      then have "[] @ (c # w) \<in> lang (Seq r s)" by (rule lang_SeqI)
      then show ?thesis by simp
    qed
  next
    assume "c # w \<in> lang (Seq r s)"
    then obtain u v where uv: "c # w = u @ v" "u \<in> lang r" "v \<in> lang s" by auto
    show "w \<in> lang (deriv c (Seq r s))"
    proof (cases u)
      case Nil
      then have "nullable r" "w \<in> lang (deriv c s)"
        using uv Seq.IH(2) nullable_lang by auto
      then show ?thesis by simp
    next
      case (Cons a u')
      then have "w = u' @ v" "u' \<in> lang (deriv c r)"
        using uv Seq.IH(1) by auto
      then show ?thesis using uv(3) by auto
    qed
  qed
next
  case (Star r)
  show ?case
    using Star.IH by (auto simp: star_cons)
qed auto

lemma fullmatch_lang: "fullmatch r s \<longleftrightarrow> s \<in> lang r"
  by (induction s arbitrary: r) (simp_all add: nullable_lang deriv_lang)


lemma star_class:
  "s \<in> star {[c] | c. P c} \<longleftrightarrow> (\<forall>c \<in> set s. P c)"
proof
  assume "s \<in> star {[c] | c. P c}"
  then show "\<forall>c \<in> set s. P c"
    by (induction rule: star.induct) auto
next
  assume "\<forall>c \<in> set s. P c"
  then show "s \<in> star {[c] | c. P c}"
  proof (induction s)
    case Nil
    show ?case by (rule star.star_nil)
  next
    case (Cons a s)
    then have "[a] \<in> {[c] | c. P c}" "s \<in> star {[c] | c. P c}" by auto
    then have "[a] @ s \<in> star {[c] | c. P c}" by (rule star.star_app)
    then show ?case by simp
  qed
qed

lemma lang_Plus_class:
  "s \<in> lang (Plus (Cls k)) \<longleftrightarrow> s \<noteq> [] \<and> (\<forall>c \<in> set s. in_class k c)"
proof
  assume "s \<in> lang (Plus (Cls k))"
  then show "s \<noteq> [] \<and> (\<forall>c \<in> set s. in_class k c)"
    by (auto simp: Plus_def star_class)
next
  assume a: "s \<noteq> [] \<and> (\<forall>c \<in> set s. in_class k c)"
  then obtain c cs where s: "s = c # cs" by (cases s) auto
  then have "[c] \<in> lang (Cls k)" "cs \<in> lang (Star (Cls k))"
    using a by (auto simp: star_class)
  then have "[c] @ cs \<in> lang (Seq (Cls k) (Star (Cls k)))" by (rule lang_SeqI)
  then show "s \<in> lang (Plus (Cls k))" using s by (simp add: Plus_def)
qed

lemma lang_Cls_Seq_cons:
  "c # cs \<in> lang (Seq (Cls k) r) \<longleftrightarrow> in_class k c \<and> cs \<in> lang r"
proof
  assume "c # cs \<in> lang (Seq (Cls k) r)"
  then show "in_class k c \<and> cs \<in> lang r" by auto
next
  assume "in_class k c \<and> cs \<in> lang r"
  then have "[c] \<in> lang (Cls k)" "cs \<in> lang r" by auto
  then have "[c] @ cs \<in> lang (Seq (Cls k) r)" by (rule lang_SeqI)
  then show "c # cs \<in> lang (Seq (Cls k) r)" by simp
qed

lemma lang_Rep_class:
  "s \<in> lang (Rep n (Cls k)) \<longleftrightarrow> length s = n \<and> (\<forall>c \<in> set s. in_class k c)"
proof (induction n arbitrary: s)
  case 0
  show ?case by auto
next
  case (Suc n)
  show ?case
  proof (cases s)
    case Nil
    then show ?thesis by auto
  next
    case (Cons a cs)
    have "a # cs \<in> lang (Rep (Suc n) (Cls k)) \<longleftrightarrow> in_class k a \<and> cs \<in> lang (Rep n (Cls k))"
      unfolding Rep.simps by (rule lang_Cls_Seq_cons)
    then show ?thesis using Cons Suc.IH [of cs] by auto
  qed
qed

lemma dni_pattern_iff:
  "fullmatch dni_pattern s \<longleftrightarrow>
     length s = 13 \<and> (\<forall>c \<in> set s. in_class (Range CHR ''0'' CHR ''9'') c)"
  by (simp add: fullmatch_lang dni_pattern_def lang_Rep_class)

lemma lang_Seq_iff:
  "w \<in> lang (Seq r s) \<longleftrightarrow> (\<exists>u v. w = u @ v \<and> u \<in> lang r \<and> v \<in> lang s)"
  by auto

lemma lang_Lit_iff: "w \<in> lang (Cls (Lit a)) \<longleftrightarrow> w = [a]"
  by auto

lemma lang_Neg_plus_iff:
  "w \<in> lang (Plus (Cls (Neg a))) \<longleftrightarrow> w \<noteq> [] \<and> a \<notin> set w"
  by (auto simp: lang_Plus_class)

lemma email_pattern_iff:
  "fullmatch email_pattern s \<longleftrightarrow>
     (\<exists>a b c. s = a @ ''@'' @ b @ ''.'' @ c \<and> a \<noteq> [] \<and> b \<noteq> [] \<and> c \<noteq> []
        \<and> CHR ''@'' \<notin> set a \<and> CHR ''@'' \<notin> set b \<and> CHR ''@'' \<notin> set c)"
proof
  assume "fullmatch email_pattern s"
  then have "s \<in> lang email_pattern" by (simp add: fullmatch_lang)
  then obtain a r1 where 1: "s = a @ r1" "a \<in> lang (Plus (Cls (Neg CHR ''@'')))"
      "r1 \<in> lang (Seq (Cls (Lit CHR ''@''))
         (Seq (Plus (Cls (Neg CHR ''@'')))
           (Seq (Cls (Lit CHR ''.'')) (Plus (Cls (Neg CHR ''@''))))))"
    unfolding email_pattern_def lang_Seq_iff [of s] by blast
  from 1(3) obtain x r2 where 2: "r1 = x @ r2" "x \<in> lang (Cls (Lit CHR ''@''))"
      "r2 \<in> lang (Seq (Plus (Cls (Neg CHR ''@'')))
           (Seq (Cls (Lit CHR ''.'')) (Plus (Cls (Neg CHR ''@'')))))"
    unfolding lang_Seq_iff [of r1] by blast
  from 2(3) obtain b r3 where 3: "r2 = b @ r3" "b \<in> lang (Plus (Cls (Neg CHR ''@'')))"
      "r3 \<in> lang (Seq (Cls (Lit CHR ''.'')) (Plus (Cls (Neg CHR ''@''))))"
    unfolding lang_Seq_iff [of r2] by blast
  from 3(3) obtain y c where 4: "r3 = y @ c" "y \<in> lang (Cls (Lit CHR ''.''))"
      "c \<in> lang (Plus (Cls (Neg CHR ''@'')))"
    unfolding lang_Seq_iff [of r3] by blast
  have "x = ''@''" "y = ''.''" using 2(2) 4(2) by (simp_all add: lang_Lit_iff)
  then have "s = a @ ''@'' @ b @ ''.'' @ c" using 1(1) 2(1) 3(1) 4(1) by simp
  moreover have "a \<noteq> [] \<and> CHR ''@'' \<notin> set a" using 1(2) by (simp add: lang_Neg_plus_iff)
  moreover have "b \<noteq> [] \<and> CHR ''@'' \<notin> set b" using 3(2) by (simp add: lang_Neg_plus_iff)
  moreover have "c \<noteq> [] \<and> CHR ''@'' \<notin> set c" using 4(3) by (simp add: lang_Neg_plus_iff)
  ultimately show "\<exists>a b c. s = a @ ''@'' @ b @ ''.'' @ c \<and> a \<noteq> [] \<and> b \<noteq> [] \<and> c \<noteq> []
        \<and> CHR ''@'' \<notin> set a \<and> CHR ''@'' \<notin> set b \<and> CHR ''@'' \<notin> set c"
    by blast
next
  assume "\<exists>a b c. s = a @ ''@'' @ b @ ''.'' @ c \<and> a \<noteq> [] \<and> b \<noteq> [] \<and> c \<noteq> []
        \<and> CHR ''@'' \<notin> set a \<and> CHR ''@'' \<notin> set b \<and> CHR ''@'' \<notin> set c"
  then obtain a b c where s: "s = a @ ''@'' @ b @ ''.'' @ c"
    and a: "a \<noteq> [] \<and> CHR ''@'' \<notin> set a"
    and b: "b \<noteq> [] \<and> CHR ''@'' \<notin> set b"
    and c: "c \<noteq> [] \<and> CHR ''@'' \<notin> set c"
    by blast
  have la: "a \<in> lang (Plus (Cls (Neg CHR ''@'')))" using a by (simp add: lang_Neg_plus_iff)
  have lb: "b \<in> lang (Plus (Cls (Neg CHR ''@'')))" using b by (simp add: lang_Neg_plus_iff)
  have lc: "c \<in> lang (Plus (Cls (Neg CHR ''@'')))" using c by (simp add: lang_Neg_plus_iff)
  have lat: "''@'' \<in> lang (Cls (Lit CHR ''@''))" by (simp add: lang_Lit_iff)
  have ldot: "''.'' \<in> lang (Cls (Lit CHR ''.''))" by (simp add: lang_Lit_iff)
  have "a @ ''@'' @ b @ ''.'' @ c \<in> lang email_pattern"
    unfolding email_pattern_def
    by (intro lang_SeqI la lb lc lat ldot)
  then show "fullmatch email_pattern s" using s by (simp only: fullmatch_lang)
qed


lemma strip_last: "strip s \<noteq> [] \<Longrightarrow> \<not> isspace (last (strip s))"
proof -
  assume ne: "strip s \<noteq> []"
  let ?d = "dropWhile isspace (rev (dropWhile isspace s))"
  have d: "?d \<noteq> []" using ne by (simp add: strip_def)
  then have "\<not> isspace (hd ?d)" by (rule hd_dropWhile)
  moreover have "last (strip s) = hd ?d" using d by (simp add: strip_def last_rev)
  ultimately show ?thesis by simp
qed

lemma re_match_strip:
  "re_match_anchored r (strip s) \<longleftrightarrow> fullmatch r (strip s)"
proof (cases "strip s = []")
  case True
  then show ?thesis by (simp add: re_match_anchored_def)
next
  case False
  then have "\<not> isspace (last (strip s))" by (rule strip_last)
  moreover have "isspace (CHR 0x0A)" by (simp add: isspace_def)
  ultimately have "last (strip s) \<noteq> CHR 0x0A" by auto
  then show ?thesis by (simp add: re_match_anchored_def)
qed

lemma upt_digits: "[48..<58::nat] = [48, 49, 50, 51, 52, 53, 54, 55, 56, 57]"
  by (simp add: upt_rec_numeral)

lemma digit_range:
  "(48 \<le> (n::nat) \<and> n \<le> 57) \<longleftrightarrow> n \<in> {48, 49, 50, 51, 52, 53, 54, 55, 56, 57}"
proof -
  have "(48 \<le> n \<and> n \<le> 57) \<longleftrightarrow> n \<in> set [48..<58]"
    by (simp only: set_upt atLeastLessThan_iff) arith
  also have "\<dots> \<longleftrightarrow> n \<in> set [48, 49, 50, 51, 52, 53, 54, 55, 56, 57 :: nat]"
    by (simp only: upt_digits)
  finally show ?thesis by simp
qed

lemma of_char_is: "of_char d = (n::nat) \<Longrightarrow> (of_char c = n \<longleftrightarrow> c = d)"
  by auto

lemma digit_chars:
  "(48 \<le> (of_char c :: nat) \<and> (of_char c :: nat) \<le> 57) \<longleftrightarrow> c \<in> set ''0123456789''"
proof -
  have "(of_char c :: nat) \<in> {48, 49, 50, 51, 52, 53, 54, 55, 56, 57} \<longleftrightarrow> c \<in> set ''0123456789''"
    using of_char_is [of "CHR ''0''" 48 c] of_char_is [of "CHR ''1''" 49 c]
      of_char_is [of "CHR ''2''" 50 c] of_char_is [of "CHR ''3''" 51 c]
      of_char_is [of "CHR ''4''" 52 c] of_char_is [of "CHR ''5''" 53 c]
      of_char_is [of "CHR ''6''" 54 c] of_char_is [of "CHR ''7''" 55 c]
      of_char_is [of "CHR ''8''" 56 c] of_char_is [of "CHR ''9''" 57 c]
    by simp
  then show ?thesis by (simp only: digit_range)
qed

lemma digit_class: "in_class (Range CHR ''0'' CHR ''9'') c \<longleftrightarrow> c \<in> set ''0123456789''"
  using digit_chars [of c] by simp

lemma email_without_at: "CHR ''@'' \<notin> set s \<Longrightarrow> \<not> fullmatch email_pattern s"
  by (auto simp: email_pattern_iff)

lemma validate_form_errors: "length (filter is_error (snd (validate_form f))) \<le> 1"
  by (simp add: validate_form_def Let_def)

text \<open>
  C7. On the stripped field values: a missing name, then a missing surname, is reported;
  a non-empty email without \<open>@\<close> (or, in general, one the pattern does not match) is
  rejected; a non-empty national ID that is not exactly 13 digits is rejected; empty or
  well-formed email and ID are accepted; the email pattern accepts exactly
  \<open>a@b.c\<close> with non-empty parts free of \<open>@\<close>; and at most one error is ever shown,
  the one of the first failing field.
\<close>

theorem validate_form_first_failure:
  "(strip (nombre_input f) = [] \<longrightarrow>
      validate_form f =
        (False, [ShowError error_de_validacion ''El nombre es obligatorio'', SetFocus NombreInput]))
   \<and> (strip (nombre_input f) \<noteq> [] \<and> strip (apellido_input f) = [] \<longrightarrow>
      validate_form f =
        (False, [ShowError error_de_validacion ''El apellido es obligatorio'', SetFocus ApellidoInput]))
   \<and> (strip (nombre_input f) \<noteq> [] \<and> strip (apellido_input f) \<noteq> []
        \<and> strip (email_input f) \<noteq> []
        \<and> (CHR ''@'' \<notin> set (strip (email_input f))
             \<or> \<not> re_match_anchored email_pattern (strip (email_input f))) \<longrightarrow>
      validate_form f =
        (False, [ShowError error_de_validacion (''Formato de email inv'' @ [CHR 0xE1] @ ''lido''),
                 SetFocus EmailInput]))
   \<and> (strip (nombre_input f) \<noteq> [] \<and> strip (apellido_input f) \<noteq> []
        \<and> (strip (email_input f) = [] \<or> re_match_anchored email_pattern (strip (email_input f)))
        \<and> strip (dni_input f) \<noteq> []
        \<and> \<not> (length (strip (dni_input f)) = 13
               \<and> (\<forall>c \<in> set (strip (dni_input f)). c \<in> set ''0123456789'')) \<longrightarrow>
      validate_form f =
        (False, [ShowError error_de_validacion (''El DNI debe tener 13 d'' @ [CHR 0xED] @ ''gitos''),
                 SetFocus DniInput]))
   \<and> (strip (nombre_input f) \<noteq> [] \<and> strip (apellido_input f) \<noteq> []
        \<and> (strip (email_input f) = [] \<or> re_match_anchored email_pattern (strip (email_input f)))
        \<and> (strip (dni_input f) = []
             \<or> length (strip (dni_input f)) = 13
               \<and> (\<forall>c \<in> set (strip (dni_input f)). c \<in> set ''0123456789'')) \<longrightarrow>
      validate_form f = (True, []))
   \<and> (re_match_anchored email_pattern (strip (email_input f)) \<longleftrightarrow>
        (\<exists>a b c. strip (email_input f) = a @ ''@'' @ b @ ''.'' @ c \<and> a \<noteq> [] \<and> b \<noteq> [] \<and> c \<noteq> []
           \<and> CHR ''@'' \<notin> set a \<and> CHR ''@'' \<notin> set b \<and> CHR ''@'' \<notin> set c))
   \<and> length (filter is_error (snd (validate_form f))) \<le> 1"
proof -
  have dni: "re_match_anchored dni_pattern (strip (dni_input f)) \<longleftrightarrow>
      length (strip (dni_input f)) = 13 \<and> (\<forall>c \<in> set (strip (dni_input f)). c \<in> set ''0123456789'')"
    by (simp only: re_match_strip dni_pattern_iff digit_class)
  have email: "re_match_anchored email_pattern (strip (email_input f)) \<longleftrightarrow>
      (\<exists>a b c. strip (email_input f) = a @ ''@'' @ b @ ''.'' @ c \<and> a \<noteq> [] \<and> b \<noteq> [] \<and> c \<noteq> []
           \<and> CHR ''@'' \<notin> set a \<and> CHR ''@'' \<notin> set b \<and> CHR ''@'' \<notin> set c)"
    by (simp only: re_match_strip email_pattern_iff)
  have no_at: "CHR ''@'' \<notin> set (strip (email_input f)) \<Longrightarrow>
      \<not> re_match_anchored email_pattern (strip (email_input f))"
    by (simp only: re_match_strip email_without_at not_False_eq_True)
  show ?thesis
  proof (intro conjI impI)
    show "re_match_anchored email_pattern (strip (email_input f)) \<longleftrightarrow>
        (\<exists>a b c. strip (email_input f) = a @ ''@'' @ b @ ''.'' @ c \<and> a \<noteq> [] \<and> b \<noteq> [] \<and> c \<noteq> []
           \<and> CHR ''@'' \<notin> set a \<and> CHR ''@'' \<notin> set b \<and> CHR ''@'' \<notin> set c)"
      by (rule email)
    show "length (filter is_error (snd (validate_form f))) \<le> 1"
      by (rule validate_form_errors)
  qed (use no_at dni in \<open>auto simp: validate_form_def Let_def\<close>)
qed

theorem validate_form_first_failure_witness:
  "strip (nombre_input \<lparr>nombre_input = ''  '', apellido_input = [], email_input = ''x'', dni_input = ''1''\<rparr>) = []
   \<and> validate_form \<lparr>nombre_input = ''  '', apellido_input = [], email_input = ''x'', dni_input = ''1''\<rparr> =
       (False, [ShowError error_de_validacion ''El nombre es obligatorio'', SetFocus NombreInput])
   \<and> validate_form \<lparr>nombre_input = ''Ana'', apellido_input = '' '', email_input = ''x'', dni_input = ''1''\<rparr> =
       (False, [ShowError error_de_validacion ''El apellido es obligatorio'', SetFocus ApellidoInput])
   \<and> CHR ''@'' \<notin> set (strip ''ana.example.com'')
   \<and> validate_form \<lparr>nombre_input = ''Ana'', apellido_input = ''Gomez'',
                      email_input = ''ana.example.com'', dni_input = ''1''\<rparr> =
       (False, [ShowError error_de_validacion (''Formato de email inv'' @ [CHR 0xE1] @ ''lido''),
                SetFocus EmailInput])
   \<and> re_match_anchored email_pattern (strip '' ana@example.com '')
   \<and> length (strip ''080119990123'') \<noteq> 13
   \<and> validate_form \<lparr>nombre_input = ''Ana'', apellido_input = ''Gomez'',
                      email_input = '' ana@example.com '', dni_input = ''080119990123''\<rparr> =
       (False, [ShowError error_de_validacion (''El DNI debe tener 13 d'' @ [CHR 0xED] @ ''gitos''),
                SetFocus DniInput])
   \<and> validate_form \<lparr>nombre_input = ''Ana'', apellido_input = ''Gomez'',
                      email_input = ''ana@example.com'', dni_input = ''0801199901234''\<rparr> = (True, [])
   \<and> validate_form \<lparr>nombre_input = ''Ana'', apellido_input = ''Gomez'',
                      email_input = [], dni_input = []\<rparr> = (True, [])"
  using
    validate_form_first_failure
      [of "\<lparr>nombre_input = ''  '', apellido_input = [], email_input = ''x'', dni_input = ''1''\<rparr>"]
    validate_form_first_failure
      [of "\<lparr>nombre_input = ''Ana'', apellido_input = '' '', email_input = ''x'', dni_input = ''1''\<rparr>"]
    validate_form_first_failure
      [of "\<lparr>nombre_input = ''Ana'', apellido_input = ''Gomez'',
            email_input = ''ana.example.com'', dni_input = ''1''\<rparr>"]
    validate_form_first_failure
      [of "\<lparr>nombre_input = ''Ana'', apellido_input = ''Gomez'',
            email_input = '' ana@example.com '', dni_input = ''080119990123''\<rparr>"]
    validate_form_first_failure
      [of "\<lparr>nombre_input = ''Ana'', apellido_input = ''Gomez'',
            email_input = ''ana@example.com'', dni_input = ''0801199901234''\<rparr>"]
    validate_form_first_failure
      [of "\<lparr>nombre_input = ''Ana'', apellido_input = ''Gomez'',
            email_input = [], dni_input = []\<rparr>"]
  by (simp add: strip_def isspace_def re_match_anchored_def email_pattern_def dni_pattern_def
      Plus_def)

subsection \<open>The persistence gateway over the reference driver\<close>

lemma fetch_sqlite3_ok:
  "exec q (conn db) = Inr c' \<Longrightarrow>
   fetch sqlite3 db q = (cursor_rows c', db\<lparr>conn := c'\<lparr>cursor_rows := []\<rparr>\<rparr>)"
  by (simp add: fetch_def sqlite3_def)

lemma fetch_sqlite3_error:
  "exec q (conn db) = Inl e \<Longrightarrow>
   fetch sqlite3 db q = ([], db\<lparr>stdout := stdout db @ [''Error en consulta: '' @ error_text e]\<rparr>)"
  by (simp add: fetch_def sqlite3_def)

lemma execute_sqlite3_ok:
  "exec q (conn db) = Inr c' \<Longrightarrow> execute sqlite3 db q = (lastrowid c', db\<lparr>conn := c'\<rparr>)"
  by (simp add: execute_def sqlite3_def)

lemma execute_sqlite3_error:
  "exec q (conn db) = Inl e \<Longrightarrow>
   execute sqlite3 db q =
     (None, db\<lparr>stdout := stdout db @ [''Error en operaci'' @ [CHR 0xF3] @ ''n: '' @ error_text e]\<rparr>)"
  by (simp add: execute_def sqlite3_def)

lemma sql_eq_TEXT [simp]: "sql_eq v (TEXT k) \<longleftrightarrow> v = TEXT k"
  by (cases v) auto

lemma sql_eq_TEXT_left [simp]: "sql_eq (TEXT k) v \<longleftrightarrow> v = TEXT k"
  by (cases v) auto

lemma sql_eq_INTEGER_INTEGER [simp]: "sql_eq (INTEGER i) (INTEGER j) \<longleftrightarrow> i = j"
  by simp

lemma holds_ColEq [simp]: "holds tbls (ColEq c v) = (\<lambda>r. sql_eq (cell r c) v)"
  by (rule ext) simp

lemma holds_Always [simp]: "holds tbls Always = (\<lambda>r. True)"
  by (rule ext) simp

lemma exec_select_valor:
  assumes "tables c ''Configuracion'' = Some (Configuracion_columns, rows)"
  shows "exec (SELECT (Columns [''valor'']) ''Configuracion'' (ColEq ''clave'' (TEXT k)) None) c =
     Inr (c\<lparr>cursor_rows := map (\<lambda>r. [cell r ''valor'']) (filter (\<lambda>r. cell r ''clave'' = TEXT k) rows)\<rparr>)"
  using assms by (simp add: Configuracion_columns_def known_def)

lemma get_config_sqlite3:
  assumes "tables (conn db) ''Configuracion'' = Some (Configuracion_columns, rows)"
  shows "fst (get_config sqlite3 db k d) =
     (case filter (\<lambda>r. cell r ''clave'' = TEXT k) rows of [] \<Rightarrow> Inr d | r # rs \<Rightarrow> Inr (cell r ''valor''))"
  using fetch_sqlite3_ok [OF exec_select_valor [OF assms, of k]]
  by (simp add: get_config_def first_cell_def split: list.splits)

lemma exec_upsert:
  assumes "tables c ''Configuracion'' = Some (Configuracion_columns, rows)"
  shows "exec (INSERT True ''Configuracion'' [''clave'', ''valor'', ''fecha_actualizacion'']
            [Param (TEXT k), Param (TEXT v), DatetimeNow]) c =
     Inr (c\<lparr>tables := (tables c)(''Configuracion'' \<mapsto>
                (Configuracion_columns,
                 filter (\<lambda>old. \<not> conflicts [''rowid'', ''clave'']
                                  (setting_row (next_rowid (sqlite_sequence c ''Configuracion'') ''rowid'' rows) k v (clock c)) old) rows
                 @ [setting_row (next_rowid (sqlite_sequence c ''Configuracion'') ''rowid'' rows) k v (clock c)])),
            lastrowid := Some (next_rowid (sqlite_sequence c ''Configuracion'') ''rowid'' rows),
            cursor_rows := []\<rparr>)"
  using assms
  by (simp add: Configuracion_columns_def known_def Let_def setting_row_def cell_def rowid_value_def
      insert_into_def bump_sequence_def)


lemma kept_rows_differ:
  "filter (\<lambda>r. cell r ''clave'' = TEXT k)
     (filter (\<lambda>old. \<not> conflicts [''rowid'', ''clave''] (setting_row rid k v now) old) rows) = []"
  by (auto simp: filter_empty_conv conflicts_def setting_row_def cell_def)

lemma set_config_conn:
  assumes "tables (conn db) ''Configuracion'' = Some (Configuracion_columns, rows)"
  shows "tables (conn (set_config sqlite3 db k v)) ''Configuracion'' =
     Some (Configuracion_columns,
       filter (\<lambda>old. \<not> conflicts [''rowid'', ''clave'']
            (setting_row (next_rowid (sqlite_sequence (conn db) ''Configuracion'') ''rowid'' rows) k v
               (clock (conn db))) old) rows
       @ [setting_row (next_rowid (sqlite_sequence (conn db) ''Configuracion'') ''rowid'' rows) k v
            (clock (conn db))])"
  using execute_sqlite3_ok [OF exec_upsert [OF assms, of k v]]
  by (simp add: set_config_def)

subsection \<open>Settings\<close>

text \<open>
  C10. On a database with the settings table of the schema, \<open>get_config k d\<close>
  returns \<open>d\<close> when no row of the table has the key \<open>k\<close>.
\<close>

theorem get_config_default:
  assumes "tables (conn db) ''Configuracion'' = Some (Configuracion_columns, rows)"
    and "TEXT k \<notin> set (map (\<lambda>r. cell r ''clave'') rows)"
  shows "fst (get_config sqlite3 db k d) = Inr d"
proof -
  have "cell r ''clave'' \<noteq> TEXT k" if "r \<in> set rows" for r
  proof -
    have "cell r ''clave'' \<in> set (map (\<lambda>r. cell r ''clave'') rows)"
      using that by simp
    then show ?thesis using assms(2) by metis
  qed
  then have "filter (\<lambda>r. cell r ''clave'' = TEXT k) rows = []"
    by (simp add: filter_empty_conv)
  then show ?thesis
    using get_config_sqlite3 [OF assms(1), of k d] by simp
qed

theorem get_config_default_witness:
  "tables (conn settings_example) ''Configuracion'' =
     Some (Configuracion_columns,
           [[(''rowid'', INTEGER 1), (''clave'', TEXT ''empresa_nombre''),
             (''valor'', TEXT ''Mi Empresa ERP''),
             (''descripcion'', TEXT ''Nombre legal de la empresa''),
             (''categoria'', TEXT ''empresa''),
             (''fecha_actualizacion'', TEXT ''2025-01-01 08:00:00'')]])
   \<and> fst (get_config sqlite3 settings_example ''moneda'' (TEXT ''L'')) = Inr (TEXT ''L'')
   \<and> fst (get_config sqlite3 settings_example ''moneda'' NULL) = Inr NULL"
  using get_config_default [where db = settings_example and k = "''moneda''" and d = "TEXT ''L''"]
    get_config_default [where db = settings_example and k = "''moneda''" and d = NULL]
  by (simp add: settings_example_def cell_def)

lemma set_config_one_row:
  assumes "tables (conn db) ''Configuracion'' = Some (Configuracion_columns, rows)"
  shows "\<exists>rows' new.
     tables (conn (set_config sqlite3 db k v)) ''Configuracion'' = Some (Configuracion_columns, rows')
     \<and> filter (\<lambda>r. cell r ''clave'' = TEXT k) rows' = [new]
     \<and> cell new ''valor'' = TEXT v
     \<and> cell new ''descripcion'' = NULL \<and> cell new ''categoria'' = NULL
     \<and> (\<forall>r \<in> set rows. cell r ''clave'' = TEXT k \<and> cell r ''descripcion'' \<noteq> NULL \<longrightarrow> r \<notin> set rows')"
proof -
  let ?new = "setting_row (next_rowid (sqlite_sequence (conn db) ''Configuracion'') ''rowid'' rows) k v
      (clock (conn db))"
  let ?kept = "filter (\<lambda>old. \<not> conflicts [''rowid'', ''clave''] ?new old) rows"
  have tbl: "tables (conn (set_config sqlite3 db k v)) ''Configuracion'' =
      Some (Configuracion_columns, ?kept @ [?new])"
    using assms by (rule set_config_conn)
  have one: "filter (\<lambda>r. cell r ''clave'' = TEXT k) (?kept @ [?new]) = [?new]"
  proof -
    have "filter (\<lambda>r. cell r ''clave'' = TEXT k) [?new] = [?new]"
      by (simp add: setting_row_def cell_def)
    then show ?thesis
      unfolding filter_append kept_rows_differ by simp
  qed
  have cells: "cell ?new ''valor'' = TEXT v" "cell ?new ''descripcion'' = NULL"
      "cell ?new ''categoria'' = NULL"
    by (simp_all add: setting_row_def cell_def)
  have gone: "\<forall>r \<in> set rows. cell r ''clave'' = TEXT k \<and> cell r ''descripcion'' \<noteq> NULL
      \<longrightarrow> r \<notin> set (?kept @ [?new])"
  proof (intro ballI impI)
    fix r
    assume r: "r \<in> set rows" and k: "cell r ''clave'' = TEXT k \<and> cell r ''descripcion'' \<noteq> NULL"
    have "conflicts [''rowid'', ''clave''] ?new r"
      using k by (simp add: conflicts_def setting_row_def cell_def)
    then have "r \<notin> set ?kept" by simp
    moreover have "r \<noteq> ?new" using k cells(2) by auto
    ultimately show "r \<notin> set (?kept @ [?new])" by simp
  qed
  from tbl one cells gone show ?thesis
    by (intro exI [of _ "?kept @ [?new]"] exI [of _ ?new] conjI)
qed

text \<open>
  C5. On a database with the settings table of the schema, whatever rows it holds,
  \<open>set_config k v\<close> followed by \<open>get_config k\<close> returns the text \<open>v\<close>; the table
  then holds exactly one row with the key \<open>k\<close>; and writing the same value a second
  time gives the same reading.
\<close>

theorem set_then_get_config:
  assumes "tables (conn db) ''Configuracion'' = Some (Configuracion_columns, rows)"
  shows "fst (get_config sqlite3 (set_config sqlite3 db k v) k d) = Inr (TEXT v)
     \<and> (\<exists>rows'. tables (conn (set_config sqlite3 db k v)) ''Configuracion'' =
            Some (Configuracion_columns, rows')
          \<and> length (filter (\<lambda>r. cell r ''clave'' = TEXT k) rows') = 1)
     \<and> fst (get_config sqlite3 (set_config sqlite3 (set_config sqlite3 db k v) k v) k d) = Inr (TEXT v)"
proof -
  have get: "fst (get_config sqlite3 (set_config sqlite3 db' k v) k d) = Inr (TEXT v)"
    if "tables (conn db') ''Configuracion'' = Some (Configuracion_columns, rows')" for db' rows'
  proof -
    from set_config_one_row [OF that, of k v] obtain rows'' new where
      t: "tables (conn (set_config sqlite3 db' k v)) ''Configuracion'' = Some (Configuracion_columns, rows'')"
      and f: "filter (\<lambda>r. cell r ''clave'' = TEXT k) rows'' = [new]"
      and c: "cell new ''valor'' = TEXT v"
      by (elim exE conjE)
    show ?thesis
      using get_config_sqlite3 [OF t, of k d] f c by simp
  qed
  from set_config_one_row [OF assms, of k v] obtain rows' new where
    t: "tables (conn (set_config sqlite3 db k v)) ''Configuracion'' = Some (Configuracion_columns, rows')"
    and f: "filter (\<lambda>r. cell r ''clave'' = TEXT k) rows' = [new]"
    by (elim exE conjE)
  have one: "\<exists>rows'. tables (conn (set_config sqlite3 db k v)) ''Configuracion'' =
            Some (Configuracion_columns, rows')
          \<and> length (filter (\<lambda>r. cell r ''clave'' = TEXT k) rows') = 1"
    using t f by (intro exI [of _ rows'] conjI) simp_all
  from get [OF assms] one get [OF t] show ?thesis
    by (intro conjI)
qed

theorem set_then_get_config_witness:
  "fst (get_config sqlite3 (set_config sqlite3 settings_example ''empresa_nombre'' ''Ferreteria El Clavo'')
          ''empresa_nombre'' NULL) = Inr (TEXT ''Ferreteria El Clavo'')
   \<and> fst (get_config sqlite3 (set_config sqlite3 settings_example ''moneda'' ''L'') ''moneda'' NULL) =
       Inr (TEXT ''L'')"
  using set_then_get_config [where db = settings_example and k = "''empresa_nombre''"
      and v = "''Ferreteria El Clavo''" and d = NULL]
    set_then_get_config [where db = settings_example and k = "''moneda''" and v = "''L''" and d = NULL]
  by (simp add: settings_example_def)

text \<open>
  C9. When the settings table holds a row with the key \<open>k\<close> whose description and
  category are not \<open>NULL\<close>, \<open>set_config k v\<close> leaves exactly one row with that key:
  a new row with the value \<open>v\<close> and with \<open>NULL\<close> for description and category. The
  old row is gone.
\<close>

theorem set_config_replaces_row:
  assumes "tables (conn db) ''Configuracion'' = Some (Configuracion_columns, rows)"
    and "r \<in> set rows" and "cell r ''clave'' = TEXT k"
    and "cell r ''descripcion'' \<noteq> NULL" and "cell r ''categoria'' \<noteq> NULL"
  shows "\<exists>rows' new.
     tables (conn (set_config sqlite3 db k v)) ''Configuracion'' = Some (Configuracion_columns, rows')
     \<and> filter (\<lambda>r. cell r ''clave'' = TEXT k) rows' = [new]
     \<and> cell new ''valor'' = TEXT v
     \<and> cell new ''descripcion'' = NULL \<and> cell new ''categoria'' = NULL
     \<and> cell new ''fecha_actualizacion'' = TEXT (clock (conn db))
     \<and> r \<notin> set rows'"
proof -
  let ?new = "setting_row (next_rowid (sqlite_sequence (conn db) ''Configuracion'') ''rowid'' rows) k v
      (clock (conn db))"
  let ?kept = "filter (\<lambda>old. \<not> conflicts [''rowid'', ''clave''] ?new old) rows"
  have tbl: "tables (conn (set_config sqlite3 db k v)) ''Configuracion'' =
      Some (Configuracion_columns, ?kept @ [?new])"
    using assms(1) by (rule set_config_conn)
  have one: "filter (\<lambda>r. cell r ''clave'' = TEXT k) (?kept @ [?new]) = [?new]"
  proof -
    have "filter (\<lambda>r. cell r ''clave'' = TEXT k) [?new] = [?new]"
      by (simp add: setting_row_def cell_def)
    then show ?thesis
      unfolding filter_append kept_rows_differ by simp
  qed
  have cells: "cell ?new ''valor'' = TEXT v" "cell ?new ''descripcion'' = NULL"
      "cell ?new ''categoria'' = NULL" "cell ?new ''fecha_actualizacion'' = TEXT (clock (conn db))"
    by (simp_all add: setting_row_def cell_def)
  have "conflicts [''rowid'', ''clave''] ?new r"
    using assms(3) by (simp add: conflicts_def setting_row_def cell_def)
  then have "r \<notin> set ?kept" by simp
  moreover have "r \<noteq> ?new" using assms(4) cells(2) by auto
  ultimately have gone: "r \<notin> set (?kept @ [?new])" by simp
  from tbl one cells gone show ?thesis
    by (intro exI [of _ "?kept @ [?new]"] exI [of _ ?new] conjI)
qed

theorem set_config_replaces_row_witness:
  "\<exists>rows' new.
     tables (conn (set_config sqlite3 settings_example ''empresa_nombre'' ''Ferreteria'')) ''Configuracion'' =
       Some (Configuracion_columns, rows')
     \<and> filter (\<lambda>r. cell r ''clave'' = TEXT ''empresa_nombre'') rows' = [new]
     \<and> cell new ''valor'' = TEXT ''Ferreteria''
     \<and> cell new ''descripcion'' = NULL \<and> cell new ''categoria'' = NULL
     \<and> cell new ''fecha_actualizacion'' = TEXT ''2025-01-01 09:30:00''
     \<and> [(''rowid'', INTEGER 1), (''clave'', TEXT ''empresa_nombre''),
         (''valor'', TEXT ''Mi Empresa ERP''),
         (''descripcion'', TEXT ''Nombre legal de la empresa''),
         (''categoria'', TEXT ''empresa''),
         (''fecha_actualizacion'', TEXT ''2025-01-01 08:00:00'')] \<notin> set rows'"
proof -
  let ?r = "[(''rowid'', INTEGER 1), (''clave'', TEXT ''empresa_nombre''),
             (''valor'', TEXT ''Mi Empresa ERP''),
             (''descripcion'', TEXT ''Nombre legal de la empresa''),
             (''categoria'', TEXT ''empresa''),
             (''fecha_actualizacion'', TEXT ''2025-01-01 08:00:00'')]"
  have t: "tables (conn settings_example) ''Configuracion'' = Some (Configuracion_columns, [?r])"
    by (simp add: settings_example_def)
  have k: "clock (conn settings_example) = ''2025-01-01 09:30:00''"
    by (simp add: settings_example_def)
  have c: "cell ?r ''clave'' = TEXT ''empresa_nombre''"
    by (simp add: cell_def)
  have n: "cell ?r ''descripcion'' \<noteq> NULL" "cell ?r ''categoria'' \<noteq> NULL"
    by (simp_all add: cell_def)
  have m: "?r \<in> set [?r]"
    by (rule list.set_intros(1))
  show ?thesis
    using set_config_replaces_row [OF t m c n, of "''Ferreteria''"] unfolding k .
qed

subsection \<open>The initial data\<close>







lemma fetch_select_conn:
  "conn (snd (fetch sqlite3 db (SELECT sel t cond lmt))) = (conn db)\<lparr>cursor_rows := []\<rparr>
   \<or> conn (snd (fetch sqlite3 db (SELECT sel t cond lmt))) = conn db"
  by (simp add: fetch_def sqlite3_def split: option.splits sum.splits prod.splits)


lemma fetch_select_sequence [simp]:
  "sqlite_sequence (conn (snd (fetch sqlite3 db (SELECT sel t cond lmt)))) = sqlite_sequence (conn db)"
  using fetch_select_conn [of db sel t cond lmt] by auto

lemma fetch_select_clock [simp]:
  "clock (conn (snd (fetch sqlite3 db (SELECT sel t cond lmt)))) = clock (conn db)"
  using fetch_select_conn [of db sel t cond lmt] by auto


































subsection \<open>Errors of the driver\<close>




end
